theory Spec2Isabelle
  imports Main "HOL-Library.Sublist"
begin

section \<open>flash\_usb.py: data model\<close>

text \<open>
  The configuration is the parsed YAML document; the model keeps the fields the
  script reads: \<open>config['usb_images'][...]\<close>, the names of \<open>config['profiles']\<close> and
  \<open>config['esp']['dest_dir']\<close>.
\<close>

record usb_images =
  all_in_one :: bool
  build :: bool
  bios :: bool
  efi :: bool
  output_path :: string

record esp =
  dest_dir :: string

record config =
  usb_images :: usb_images
  profiles :: "string list"
  esp :: esp

text \<open>The parsed command line (\<open>parse_args\<close>): \<open>--dev\<close>, \<open>--url\<close>, \<open>--config\<close>, \<open>--debug\<close>.\<close>

record args =
  dev_path :: "string option"
  image_url :: "string option"
  config_file :: string
  debug :: bool

text \<open>
  Every \<open>raise\<close> of the script is one constructor. The first group are the
  \<open>seo.error.AppException\<close>s, named after the error kinds of the specification; the
  second group are the two \<open>RuntimeError\<close>s of \<open>run_flash_usb_script\<close>; the third
  group are exceptions of the Python library that the script does not catch. The
  last one is not an exception: the script itself is ended by \<open>SIGTERM\<close>, for which it
  installs no handler, so nothing is raised and nothing is reported.
\<close>

datatype error =
    MissingPrivilege
  | MissingDevicePath
  | DeviceNotFound
  | BadUrlScheme
  | BadUrlExtension
  | BadUrlNaming
  | UrlUnreachable
  | ConfigUnreadable
  | ConfigFormatError
  | InvalidProfileChoice
  | BuildDisabled
  | InvalidBiosChoice
  | NoBiosTypeConfigured
  | ArtifactNotFound
  | WorkdirNotFound
  | ChildExecutionFailed
  | InterruptedByUser
  | PyValueError
  | PyEOFError
  | PyOSError
  | PyOtherError
  | KilledBySigterm

datatype codes = NO_ERROR | MISSING_PREREQUISITE | ARGUMENT_ERROR | CONFIG_ERROR | RUNTIME_ERROR

text \<open>The \<open>seo.error.Codes\<close> member each \<open>AppException\<close> is raised with.\<close>

fun code :: "error \<Rightarrow> codes option" where
  "code MissingPrivilege = Some MISSING_PREREQUISITE"
| "code MissingDevicePath = Some MISSING_PREREQUISITE"
| "code DeviceNotFound = Some MISSING_PREREQUISITE"
| "code BadUrlScheme = Some ARGUMENT_ERROR"
| "code BadUrlExtension = Some ARGUMENT_ERROR"
| "code BadUrlNaming = Some ARGUMENT_ERROR"
| "code UrlUnreachable = Some ARGUMENT_ERROR"
| "code ConfigUnreadable = Some ARGUMENT_ERROR"
| "code ConfigFormatError = Some CONFIG_ERROR"
| "code InvalidProfileChoice = Some ARGUMENT_ERROR"
| "code BuildDisabled = Some CONFIG_ERROR"
| "code InvalidBiosChoice = Some ARGUMENT_ERROR"
| "code NoBiosTypeConfigured = Some CONFIG_ERROR"
| "code ArtifactNotFound = Some RUNTIME_ERROR"
| "code WorkdirNotFound = Some CONFIG_ERROR"
| "code _ = None"

text \<open>Outcome of \<open>urllib.request.urlopen(url, timeout=1)\<close>.\<close>

datatype probe =
    ProbeOk
  | ProbeFailed \<comment> \<open>\<open>HTTPError\<close>, \<open>URLError\<close> or \<open>socket.timeout\<close>: caught by the script\<close>
  | ProbeRaised \<comment> \<open>any other exception: not caught\<close>

text \<open>
  What the script asks of the operating system and of the Python library. The
  theorems hold for every value of this record.
  \<^item> \<open>getuid\<close>: \<open>os.getuid()\<close>;
  \<^item> \<open>path_exists\<close>: \<open>pathlib.Path.exists\<close>, on the string of the path;
  \<^item> \<open>urlparse_geturl\<close>: \<open>urllib.parse.urlparse(u).geturl()\<close>, \<open>None\<close> when
    \<open>urlparse\<close> raises \<open>ValueError\<close>;
  \<^item> \<open>urlopen\<close>: the reachability probe;
  \<^item> \<open>py_int\<close>: the built-in \<open>int\<close> on a \<open>str\<close>, \<open>None\<close> when it raises \<open>ValueError\<close>;
  \<^item> \<open>get_config\<close>: reading and parsing the configuration file;
  \<^item> \<open>spawn\<close>: \<open>subprocess.Popen(cmd, shell=True, cwd=workdir)\<close>, the pid of the child,
    \<open>None\<close> when it raises \<open>OSError\<close>;
  \<^item> \<open>getpgid\<close>: \<open>os.getpgid\<close> of a child that has not been reaped;
  \<^item> \<open>getpgrp\<close>: the process group of the script itself. \<open>Popen\<close> is called without
    \<open>start_new_session\<close> and without \<open>preexec_fn\<close>, so the child starts in this group,
    and \<open>getpgid\<close> of the child is \<open>getpgrp\<close> unless the child has left the group
    by itself.
\<close>

record world =
  getuid :: nat
  path_exists :: "string \<Rightarrow> bool"
  urlparse_geturl :: "string \<Rightarrow> string option"
  urlopen :: "string \<Rightarrow> probe"
  py_int :: "string \<Rightarrow> int option"
  get_config :: "string \<Rightarrow> error + config"
  spawn :: "string \<Rightarrow> string \<Rightarrow> nat option"
  getpgid :: "nat \<Rightarrow> nat"
  getpgrp :: nat

text \<open>
  The terminal: the lines still to be read by \<open>input\<close>, and what has been written
  to standard output. \<open>logging\<close> calls write to standard error and are left out.
\<close>

record io =
  stdin :: "string list"
  stdout :: "string list"

section \<open>Strings\<close>

text \<open>\<open>str.lower\<close>, on ASCII letters.\<close>

definition lower_char :: "char \<Rightarrow> char" where
  "lower_char c =
     (case map_of (zip ''ABCDEFGHIJKLMNOPQRSTUVWXYZ'' ''abcdefghijklmnopqrstuvwxyz'') c of
        Some d \<Rightarrow> d
      | None \<Rightarrow> c)"

definition lower :: "string \<Rightarrow> string" where
  "lower s = map lower_char s"

definition startswith :: "string \<Rightarrow> string \<Rightarrow> bool" where
  "startswith s p = prefix p s"

definition endswith :: "string \<Rightarrow> string \<Rightarrow> bool" where
  "endswith s p = suffix p s"

text \<open>\<open>sub in s\<close>.\<close>

definition contains :: "string \<Rightarrow> string \<Rightarrow> bool" where
  "contains sub s = sublist sub s"

text \<open>\<open>s.split(c)\<close> for a one-character separator.\<close>

fun split_sep :: "char \<Rightarrow> string \<Rightarrow> string list" where
  "split_sep c [] = [[]]"
| "split_sep c (x # xs) =
     (if x = c then [] # split_sep c xs
      else (case split_sep c xs of
              [] \<Rightarrow> [[x]]
            | y # ys \<Rightarrow> (x # y) # ys))"

text \<open>\<open>sep.join(xs)\<close>.\<close>

fun join :: "string \<Rightarrow> string list \<Rightarrow> string" where
  "join sep [] = []"
| "join sep [x] = x"
| "join sep (x # y # ys) = x @ sep @ join sep (y # ys)"

text \<open>\<open>str(n)\<close> for a natural number, as the f-string of the profile menu prints it.\<close>

definition digit_char :: "nat \<Rightarrow> char" where
  "digit_char d = ''0123456789'' ! d"

function str_nat :: "nat \<Rightarrow> string" where
  "str_nat n = (if n < 10 then [digit_char n] else str_nat (n div 10) @ [digit_char (n mod 10)])"
  by pat_completeness auto
termination
  by (relation "measure id") auto

declare str_nat.simps [simp del]

section \<open>pathlib\<close>

text \<open>
  A \<open>pathlib.PurePosixPath\<close>: its root (\<open>''''\<close>, \<open>''/''\<close> or \<open>''//''\<close>) and its parts
  after the root. \<open>splitroot\<close>, \<open>Path\<close>, \<open>truediv\<close> (the operator \<open>/\<close>) and \<open>path_str\<close>
  (\<open>str\<close>) follow the POSIX flavour of the library.
\<close>

record path =
  root :: string
  parts :: "string list"

definition splitroot :: "string \<Rightarrow> string \<times> string" where
  "splitroot part =
     (if part \<noteq> [] \<and> hd part = CHR ''/'' then
        (let stripped_part = dropWhile (\<lambda>c. c = CHR ''/'') part in
         if length part - length stripped_part = 2 then (''//'', stripped_part)
         else (''/'', stripped_part))
      else ('''', part))"

definition Path :: "string \<Rightarrow> path" where
  "Path s =
     (case splitroot s of
        (r, rel) \<Rightarrow> \<lparr>root = r, parts = filter (\<lambda>x. x \<noteq> [] \<and> x \<noteq> ''.'') (split_sep CHR ''/'' rel)\<rparr>)"

definition truediv :: "path \<Rightarrow> string \<Rightarrow> path" where
  "truediv p key =
     (let p2 = Path key in
      if root p2 \<noteq> [] then p2
      else \<lparr>root = root p, parts = parts p @ parts p2\<rparr>)"

definition path_str :: "path \<Rightarrow> string" where
  "path_str p =
     (let s = root p @ join ''/'' (parts p) in
      if s = [] then ''.'' else s)"

definition exists :: "world \<Rightarrow> path \<Rightarrow> bool" where
  "exists w p = path_exists w (path_str p)"

section \<open>Interactive input\<close>

text \<open>\<open>print(s)\<close> writes \<open>s\<close> and a newline.\<close>

definition print :: "string \<Rightarrow> io \<Rightarrow> io" where
  "print s t = t\<lparr>stdout := stdout t @ [s @ [CHR 0x0A]]\<rparr>"

text \<open>
  \<open>input(prompt)\<close> writes the prompt and reads one line; at end of input it raises
  \<open>EOFError\<close>, which the script does not catch.
\<close>

definition input :: "string \<Rightarrow> io \<Rightarrow> (error + string) \<times> io" where
  "input prompt t =
     (let t' = t\<lparr>stdout := stdout t @ [prompt]\<rparr> in
      case stdin t of
        [] \<Rightarrow> (Inl PyEOFError, t')
      | l # ls \<Rightarrow> (Inr l, t'\<lparr>stdin := ls\<rparr>))"

section \<open>choose\_profile and choose\_bios\<close>

text \<open>The loop over \<open>enumerate(profiles)\<close> that prints the menu, from index \<open>idx\<close> on.\<close>

fun print_menu :: "nat \<Rightarrow> string list \<Rightarrow> io \<Rightarrow> io" where
  "print_menu idx [] t = t"
| "print_menu idx (profile # rest) t =
     print_menu (idx + 1) rest (print (str_nat (idx + 1) @ ''. '' @ profile @ [CHR 0x0A]) t)"

definition choose_profile :: "world \<Rightarrow> config \<Rightarrow> io \<Rightarrow> (error + string) \<times> io" where
  "choose_profile w cfg t =
     (let usb_config = usb_images cfg;
          names = profiles cfg
      in
      if \<not> all_in_one usb_config then
        (case input ''Please choose which profile to flash: '' (print_menu 0 names t) of
           (Inl e, t') \<Rightarrow> (Inl e, t')
         | (Inr line, t') \<Rightarrow>
             (case py_int w line of
                None \<Rightarrow> (Inl InvalidProfileChoice, t')
              | Some profile_choice \<Rightarrow>
                  if profile_choice < 1 \<or> profile_choice > int (length names)
                  then (Inl InvalidProfileChoice, t')
                  else (Inr (names ! nat (profile_choice - 1)), t')))
      else (Inr ''all'', t))"

text \<open>The prompt of \<open>choose_bios\<close>; \<open>CHR 0x27\<close> is the single quote.\<close>

definition bios_prompt :: string where
  "bios_prompt =
     ''Which bios type image do you want write to USB? ('' @ [CHR 0x27] @ ''bios'' @ [CHR 0x27]
       @ '' or '' @ [CHR 0x27] @ ''efi'' @ [CHR 0x27] @ ''): ''"

definition choose_bios :: "config \<Rightarrow> io \<Rightarrow> (error + string) \<times> io" where
  "choose_bios cfg t =
     (let usb_config = usb_images cfg in
      if \<not> build usb_config then (Inl BuildDisabled, t)
      else if bios usb_config \<and> efi usb_config then
        (case input bios_prompt t of
           (Inl e, t') \<Rightarrow> (Inl e, t')
         | (Inr bios_type, t') \<Rightarrow>
             if bios_type \<noteq> ''bios'' \<and> bios_type \<noteq> ''efi''
             then (Inl InvalidBiosChoice, t')
             else (Inr bios_type, t'))
      else if bios usb_config then (Inr ''bios'', t)
      else if efi usb_config then (Inr ''efi'', t)
      else (Inl NoBiosTypeConfigured, t))"

section \<open>check\_preconditions\<close>

text \<open>Python's truth value of \<open>args.image_url\<close>: \<open>None\<close> and the empty string are false.\<close>

definition truthy :: "string option \<Rightarrow> bool" where
  "truthy x = (case x of None \<Rightarrow> False | Some s \<Rightarrow> s \<noteq> [])"

text \<open>The block under \<open>if args.image_url:\<close>.\<close>

definition check_image_url :: "world \<Rightarrow> string \<Rightarrow> error + unit" where
  "check_image_url w u =
     (case urlparse_geturl w u of
        None \<Rightarrow> Inl PyValueError
      | Some url \<Rightarrow>
          if \<not> startswith (lower url) ''http'' then Inl BadUrlScheme
          else if \<not> endswith (lower url) ''.img'' then Inl BadUrlExtension
          else if list_all (\<lambda>bios_type. \<not> contains bios_type url) [''-bios'', ''-efi'']
          then Inl BadUrlNaming
          else (case urlopen w url of
                  ProbeOk \<Rightarrow> Inr ()
                | ProbeFailed \<Rightarrow> Inl UrlUnreachable
                | ProbeRaised \<Rightarrow> Inl PyOtherError))"

definition check_preconditions :: "world \<Rightarrow> args \<Rightarrow> error + unit" where
  "check_preconditions w a =
     (if getuid w \<noteq> 0 then Inl MissingPrivilege
      else (case dev_path a of
              None \<Rightarrow> Inl MissingDevicePath
            | Some d \<Rightarrow>
                if \<not> exists w (Path d) then Inl DeviceNotFound
                else if truthy (image_url a) then check_image_url w (the (image_url a))
                else Inr ()))"

section \<open>generate\_command\<close>

text \<open>\<open>workdir / f"{profile}-{bios}.img"\<close>.\<close>

definition image_path :: "config \<Rightarrow> string \<Rightarrow> string \<Rightarrow> path" where
  "image_path cfg profile bios_type =
     truediv (Path (output_path (usb_images cfg))) (profile @ ''-'' @ bios_type @ ''.img'')"

definition generate_command :: "world \<Rightarrow> config \<Rightarrow> path \<Rightarrow> string \<Rightarrow> string \<Rightarrow> error + string list" where
  "generate_command w cfg dev profile bios_type =
     (if \<not> exists w (image_path cfg profile bios_type) then Inl ArtifactNotFound
      else Inr [''./flashusb.sh'',
                ''-d'',
                path_str dev,
                ''-i'',
                ''../'' @ path_str (image_path cfg profile bios_type),
                ''-b'',
                bios_type])"

section \<open>run\_flash\_usb\_script\<close>

text \<open>
  What the supervisor does to the outside: the child it starts (command line and
  working directory) and the signals it sends.
\<close>

datatype signal = SIGTERM | SIGKILL

datatype effect =
    Popen string string
  | Kill nat signal \<comment> \<open>a signal to one process\<close>
  | Killpg nat signal \<comment> \<open>a signal to a process group\<close>

text \<open>
  One entry for each evaluation of \<open>proc.poll()\<close> in the \<open>while\<close> condition: the
  child is still running, it has exited with a return code, or \<open>KeyboardInterrupt\<close> is
  raised at this point of the loop, the child still running.
\<close>

datatype poll = StillRunning | Exit int | Sigint

datatype loop_end = Finished int | Interrupted

text \<open>
  The \<open>while proc.poll() is None\<close> loop. \<open>Popen\<close> is called without \<open>stdout=PIPE\<close>, so
  \<open>proc.stdout\<close> is \<open>None\<close> and every iteration takes the \<open>continue\<close>. A schedule that
  ends with the child still running gives \<open>None\<close>: the loop has not returned.
\<close>

fun poll_loop :: "poll list \<Rightarrow> loop_end option" where
  "poll_loop [] = None"
| "poll_loop (StillRunning # sched) = poll_loop sched"
| "poll_loop (Exit returncode # sched) = Some (Finished returncode)"
| "poll_loop (Sigint # sched) = Some Interrupted"

text \<open>
  In the handler of \<open>KeyboardInterrupt\<close>, \<open>os.killpg(os.getpgid(proc.pid), SIGTERM)\<close>
  signals every process of the child's group. When that group is the script's own,
  the script receives the signal before \<open>killpg\<close> returns and is ended by it: the
  \<open>raise RuntimeError("Interrupted by user")\<close> of the next line is not reached.
\<close>

definition run_flash_usb_script ::
  "world \<Rightarrow> config \<Rightarrow> string list \<Rightarrow> poll list \<Rightarrow> ((error + unit) \<times> effect list) option" where
  "run_flash_usb_script w cfg cmd sched =
     (let cmdline = join '' '' cmd;
          workdir = Path (dest_dir (esp cfg))
      in
      if \<not> exists w workdir then Some (Inl WorkdirNotFound, [])
      else (case spawn w cmdline (path_str workdir) of
              None \<Rightarrow> Some (Inl PyOSError, [])
            | Some pid \<Rightarrow>
                (case poll_loop sched of
                   None \<Rightarrow> None
                 | Some (Finished returncode) \<Rightarrow>
                     if returncode \<noteq> 0
                     then Some (Inl ChildExecutionFailed, [Popen cmdline (path_str workdir)])
                     else Some (Inr (), [Popen cmdline (path_str workdir)])
                 | Some Interrupted \<Rightarrow>
                     if getpgid w pid = getpgrp w
                     then Some (Inl KilledBySigterm,
                                [Popen cmdline (path_str workdir), Killpg (getpgid w pid) SIGTERM])
                     else Some (Inl InterruptedByUser,
                                [Popen cmdline (path_str workdir), Killpg (getpgid w pid) SIGTERM]))))"

section \<open>main\<close>

text \<open>The choice of the command in \<open>main\<close>: \<open>if url := args.image_url: ... else: ...\<close>.\<close>

definition select_command ::
  "world \<Rightarrow> config \<Rightarrow> path \<Rightarrow> string option \<Rightarrow> io \<Rightarrow> (error + string list) \<times> io" where
  "select_command w cfg dev url t =
     (if truthy url then (Inr [''./flashusb.sh'', ''-d'', path_str dev, ''-u'', the url], t)
      else (case choose_profile w cfg t of
              (Inl e, t1) \<Rightarrow> (Inl e, t1)
            | (Inr profile, t1) \<Rightarrow>
                (case choose_bios cfg t1 of
                   (Inl e, t2) \<Rightarrow> (Inl e, t2)
                 | (Inr bios_type, t2) \<Rightarrow> (generate_command w cfg dev profile bios_type, t2))))"


section \<open>The shell\<close>




section \<open>The URL as the specification reads it\<close>

text \<open>
  The specification speaks of the scheme and of the path component of the URL. These
  two functions follow its words (the generic URL syntax
  \<open>scheme://authority/path?query#fragment\<close>); the script computes neither.
\<close>

definition scheme_chars :: string where
  "scheme_chars =
     ''abcdefghijklmnopqrstuvwxyz'' @ ''ABCDEFGHIJKLMNOPQRSTUVWXYZ'' @ ''0123456789'' @ ''+-.''"

definition url_scheme :: "string \<Rightarrow> string" where
  "url_scheme u =
     (let s = takeWhile (\<lambda>c. c \<noteq> CHR '':'') u in
      if s \<noteq> [] \<and> length s < length u \<and> list_all (\<lambda>c. c \<in> set scheme_chars) s
      then lower s else [])"

definition url_path :: "string \<Rightarrow> string" where
  "url_path u =
     (let rest = (if url_scheme u = [] then u else drop (length (url_scheme u) + 1) u);
          hier = (if startswith rest ''//''
                  then dropWhile (\<lambda>c. c \<notin> set ''/?#'') (drop 2 rest)
                  else rest)
      in takeWhile (\<lambda>c. c \<notin> set ''?#'') hier)"

section \<open>Concrete runs\<close>

text \<open>
  A machine for the examples: the script runs as root, integers are read as plain
  decimal digits, the URL parser gives back the URLs of the examples as they are
  (they are already in the form it writes), and no host answers the probe. The files
  that exist are the device, the image of the specification's example, and the
  working directory. The script runs in process group 4200 and its child, process
  4242, is in that group.
\<close>

definition digit_val :: "char \<Rightarrow> int" where
  "digit_val c =
     (case map_of (zip ''0123456789'' [0, 1, 2, 3, 4, 5, 6, 7, 8, 9]) c of
        Some d \<Rightarrow> d
      | None \<Rightarrow> 0)"

definition digits_int :: "string \<Rightarrow> int option" where
  "digits_int s =
     (if s \<noteq> [] \<and> list_all (\<lambda>c. c \<in> set ''0123456789'') s
      then Some (foldl (\<lambda>n c. 10 * n + digit_val c) 0 s)
      else None)"

definition world0 :: world where
  "world0 =
     \<lparr>getuid = 0,
      path_exists = (\<lambda>p. p \<in> set [''/dev/sdc'', ''/tmp/out/edge-efi.img'', ''esp'']),
      urlparse_geturl = Some,
      urlopen = (\<lambda>_. ProbeFailed),
      py_int = digits_int,
      get_config = (\<lambda>_. Inl ConfigUnreadable),
      spawn = (\<lambda>_ _. Some 4242),
      getpgid = (\<lambda>_. 4200),
      getpgrp = 4200\<rparr>"

definition config0 :: config where
  "config0 =
     \<lparr>usb_images = \<lparr>all_in_one = False, build = True, bios = True, efi = True,
                     output_path = ''/tmp/out''\<rparr>,
      profiles = [''edge'', ''core''],
      esp = \<lparr>dest_dir = ''esp''\<rparr>\<rparr>"

text \<open>The command line \<open>--dev /dev/sdc\<close>, with or without \<open>--url\<close>.\<close>

definition args0 :: "string option \<Rightarrow> args" where
  "args0 url =
     \<lparr>dev_path = Some ''/dev/sdc'', image_url = url,
      config_file = ''default_config.yml'', debug = False\<rparr>"

text \<open>The same configuration with \<open>build\<close>, \<open>bios\<close> and \<open>efi\<close> set as given.\<close>

definition config_bios :: "bool \<Rightarrow> bool \<Rightarrow> bool \<Rightarrow> config" where
  "config_bios bld b e =
     config0\<lparr>usb_images := (usb_images config0)\<lparr>build := bld, bios := b, efi := e\<rparr>\<rparr>"



definition io0 :: io where
  "io0 = \<lparr>stdin = [''2'', ''efi''], stdout = []\<rparr>"

section \<open>Auxiliary facts\<close>

lemma stdin_print_menu: "stdin (print_menu idx names t) = stdin t"
  by (induction names arbitrary: idx t) (simp_all add: print_def)

lemma poll_loop_interrupt:
  "list_all (\<lambda>p. p = StillRunning) pre \<Longrightarrow> poll_loop (pre @ Sigint # rest) = Some Interrupted"
  by (induction pre) auto

lemma choose_bios_result:
  "fst (choose_bios cfg t) = Inr b \<Longrightarrow> b = ''bios'' \<or> b = ''efi''"
  by (auto simp: choose_bios_def Let_def split: if_splits prod.splits sum.splits)

lemma select_command_profile:
  assumes "\<not> truthy url" and "fst (select_command w cfg dev url t0) = Inr cmd"
  shows "\<exists>profile ta bt. fst (choose_bios cfg ta) = Inr bt
           \<and> generate_command w cfg dev profile bt = Inr cmd"
proof -
  obtain r1 t1 where cp: "choose_profile w cfg t0 = (r1, t1)"
    by (cases "choose_profile w cfg t0")
  obtain r2 t2 where cb: "choose_bios cfg t1 = (r2, t2)"
    by (cases "choose_bios cfg t1")
  from assms cp cb obtain profile bt where
    "r2 = Inr bt" and "generate_command w cfg dev profile bt = Inr cmd"
    by (cases r1; cases r2) (auto simp: select_command_def)
  with cb show ?thesis
    by (metis fst_conv)
qed

lemma dev0: "path_str (Path ''/dev/sdc'') = ''/dev/sdc''"
  by (simp add: Path_def splitroot_def path_str_def)


lemma image_path0: "path_str (image_path config0 ''edge'' ''efi'') = ''/tmp/out/edge-efi.img''"
  by (simp add: image_path_def config0_def truediv_def Path_def splitroot_def path_str_def)

lemma pre0:
  "getuid world0 = 0"
  "dev_path (args0 url) = Some ''/dev/sdc''"
  "exists world0 (Path ''/dev/sdc'')"
  "image_url (args0 url) = url"
  by (simp_all add: world0_def args0_def exists_def dev0)












section \<open>generate\_command\<close>

text \<open>What \<open>generate_command\<close> returns when the image is there.\<close>

lemma generate_command_artifact:
  "exists w (image_path cfg profile bios_type) \<Longrightarrow>
   generate_command w cfg dev profile bios_type =
     Inr [''./flashusb.sh'', ''-d'', path_str dev,
          ''-i'', ''../'' @ path_str (image_path cfg profile bios_type),
          ''-b'', bios_type]"
  by (simp add: generate_command_def)

text \<open>
  C1 does not hold of the code at the example the claim itself gives:
  \<open>output_path = /tmp/out\<close>, profile \<open>edge\<close>, bios type \<open>efi\<close>, and the file
  \<open>/tmp/out/edge-efi.img\<close> exists. The builder succeeds and the \<open>-b\<close> argument is
  \<open>efi\<close>, but the \<open>-i\<close> argument is \<open>..//tmp/out/edge-efi.img\<close>: the script puts
  \<open>../\<close> in front of the path it has checked, which is right only for a relative
  \<open>output_path\<close>. The command runs in \<open>esp.dest_dir\<close>, here \<open>esp\<close>, where this
  argument names \<open>esp/../tmp/out/edge-efi.img\<close>: not the file that was checked, and
  on this machine a file that does not exist.
\<close>

theorem generate_command_absolute_output_path:
  "exists world0 (image_path config0 ''edge'' ''efi'')
   \<and> path_str (image_path config0 ''edge'' ''efi'') = ''/tmp/out/edge-efi.img''
   \<and> generate_command world0 config0 (Path ''/dev/sdc'') ''edge'' ''efi'' =
       Inr [''./flashusb.sh'', ''-d'', ''/dev/sdc'', ''-i'', ''..//tmp/out/edge-efi.img'',
            ''-b'', ''efi'']
   \<and> path_str (truediv (Path (dest_dir (esp config0))) ''..//tmp/out/edge-efi.img'')
       = ''esp/../tmp/out/edge-efi.img''
   \<and> \<not> path_exists world0 ''esp/../tmp/out/edge-efi.img''"
proof (intro conjI)
  show "exists world0 (image_path config0 ''edge'' ''efi'')"
    by (simp add: exists_def image_path0 world0_def)
  show "path_str (image_path config0 ''edge'' ''efi'') = ''/tmp/out/edge-efi.img''"
    by (rule image_path0)
  show "generate_command world0 config0 (Path ''/dev/sdc'') ''edge'' ''efi'' =
       Inr [''./flashusb.sh'', ''-d'', ''/dev/sdc'', ''-i'', ''..//tmp/out/edge-efi.img'',
            ''-b'', ''efi'']"
    by (simp add: generate_command_def exists_def image_path0 dev0 world0_def)
  show "path_str (truediv (Path (dest_dir (esp config0))) ''..//tmp/out/edge-efi.img'')
       = ''esp/../tmp/out/edge-efi.img''"
    by code_simp
  show "\<not> path_exists world0 ''esp/../tmp/out/edge-efi.img''"
    by (simp add: world0_def)
qed

section \<open>The direct URL\<close>




section \<open>The checks on the URL\<close>

text \<open>
  C3, as stated, fails. The URL \<open>httpx://example.com/edge-bios.img\<close> has the scheme
  \<open>httpx\<close>, which is neither \<open>http\<close> nor \<open>https\<close>, and \<open>check_preconditions\<close> does not
  fail with the bad-scheme error: the text starts with \<open>http\<close>, so the check passes,
  and the run fails later, at the probe.
\<close>

theorem check_preconditions_scheme_counterexample:
  "url_scheme ''httpx://example.com/edge-bios.img'' = ''httpx''
   \<and> check_preconditions world0 (args0 (Some ''httpx://example.com/edge-bios.img''))
       = Inl UrlUnreachable"
proof
  show "url_scheme ''httpx://example.com/edge-bios.img'' = ''httpx''"
    by code_simp
  show "check_preconditions world0 (args0 (Some ''httpx://example.com/edge-bios.img''))
          = Inl UrlUnreachable"
    by code_simp
qed

text \<open>
  C3, amended. When the privilege and device checks have passed, for every non-empty
  image URL that the URL parser accepts, \<open>check_preconditions\<close> fails with the
  bad-scheme error if and only if the text of the URL (as the parser writes it back),
  in lower case, does not start with \<open>http\<close>.
\<close>

theorem check_preconditions_scheme:
  assumes "getuid w = 0" and "dev_path a = Some d" and "exists w (Path d)"
    and "image_url a = Some u" and "u \<noteq> []" and "urlparse_geturl w u = Some url"
  shows "check_preconditions w a = Inl BadUrlScheme \<longleftrightarrow> \<not> startswith (lower url) ''http''"
  using assms
  by (auto simp: check_preconditions_def check_image_url_def truthy_def split: probe.splits)

text \<open>C3 at the URL of the specification's scenario, \<open>ftp://x/y.img\<close>.\<close>

theorem check_preconditions_scheme_witness:
  "getuid world0 = 0
   \<and> dev_path (args0 (Some ''ftp://x/y.img'')) = Some ''/dev/sdc''
   \<and> exists world0 (Path ''/dev/sdc'')
   \<and> image_url (args0 (Some ''ftp://x/y.img'')) = Some ''ftp://x/y.img''
   \<and> ''ftp://x/y.img'' \<noteq> []
   \<and> urlparse_geturl world0 ''ftp://x/y.img'' = Some ''ftp://x/y.img''
   \<and> \<not> startswith (lower ''ftp://x/y.img'') ''http''
   \<and> check_preconditions world0 (args0 (Some ''ftp://x/y.img'')) = Inl BadUrlScheme"
proof -
  have g: "urlparse_geturl world0 ''ftp://x/y.img'' = Some ''ftp://x/y.img''"
    by (simp add: world0_def)
  have n: "\<not> startswith (lower ''ftp://x/y.img'') ''http''"
    by (simp add: startswith_def lower_def lower_char_def)
  have "check_preconditions world0 (args0 (Some ''ftp://x/y.img'')) = Inl BadUrlScheme"
    using check_preconditions_scheme [OF pre0(1) pre0(2) pre0(3) pre0(4) _ g] n by simp
  then show ?thesis using pre0 g n by simp
qed

text \<open>
  C4, as stated, fails. The path component of
  \<open>http://example.com/edge-bios.img?v=1\<close> is \<open>/edge-bios.img\<close>, which ends in
  \<open>.img\<close>, and \<open>check_preconditions\<close> fails with the bad-extension error: the script
  looks at the end of the whole URL, query included.
\<close>

theorem check_preconditions_extension_counterexample:
  "url_path ''http://example.com/edge-bios.img?v=1'' = ''/edge-bios.img''
   \<and> endswith (url_path ''http://example.com/edge-bios.img?v=1'') ''.img''
   \<and> check_preconditions world0 (args0 (Some ''http://example.com/edge-bios.img?v=1''))
       = Inl BadUrlExtension"
proof (intro conjI)
  show "url_path ''http://example.com/edge-bios.img?v=1'' = ''/edge-bios.img''"
    by code_simp
  show "endswith (url_path ''http://example.com/edge-bios.img?v=1'') ''.img''"
    by code_simp
  show "check_preconditions world0 (args0 (Some ''http://example.com/edge-bios.img?v=1''))
          = Inl BadUrlExtension"
    by code_simp
qed

text \<open>
  C4, amended. For every non-empty image URL that the URL parser accepts and that
  passes the scheme check, \<open>check_preconditions\<close> fails with the bad-extension error
  if and only if the text of the whole URL (as the parser writes it back), in lower
  case, does not end in \<open>.img\<close>.
\<close>

theorem check_preconditions_extension:
  assumes "getuid w = 0" and "dev_path a = Some d" and "exists w (Path d)"
    and "image_url a = Some u" and "u \<noteq> []" and "urlparse_geturl w u = Some url"
    and "startswith (lower url) ''http''"
  shows "check_preconditions w a = Inl BadUrlExtension \<longleftrightarrow> \<not> endswith (lower url) ''.img''"
  using assms
  by (auto simp: check_preconditions_def check_image_url_def truthy_def split: probe.splits)

text \<open>C4 at a URL that names an \<open>.iso\<close> file.\<close>

theorem check_preconditions_extension_witness:
  "getuid world0 = 0
   \<and> dev_path (args0 (Some ''http://x/edge-efi.iso'')) = Some ''/dev/sdc''
   \<and> exists world0 (Path ''/dev/sdc'')
   \<and> image_url (args0 (Some ''http://x/edge-efi.iso'')) = Some ''http://x/edge-efi.iso''
   \<and> ''http://x/edge-efi.iso'' \<noteq> []
   \<and> urlparse_geturl world0 ''http://x/edge-efi.iso'' = Some ''http://x/edge-efi.iso''
   \<and> startswith (lower ''http://x/edge-efi.iso'') ''http''
   \<and> \<not> endswith (lower ''http://x/edge-efi.iso'') ''.img''
   \<and> check_preconditions world0 (args0 (Some ''http://x/edge-efi.iso'')) = Inl BadUrlExtension"
proof -
  have g: "urlparse_geturl world0 ''http://x/edge-efi.iso'' = Some ''http://x/edge-efi.iso''"
    by (simp add: world0_def)
  have s: "startswith (lower ''http://x/edge-efi.iso'') ''http''"
    by (simp add: startswith_def lower_def lower_char_def)
  have n: "\<not> endswith (lower ''http://x/edge-efi.iso'') ''.img''"
    by (simp add: endswith_def lower_def lower_char_def suffix_to_prefix)
  have "check_preconditions world0 (args0 (Some ''http://x/edge-efi.iso'')) = Inl BadUrlExtension"
    using check_preconditions_extension [OF pre0(1) pre0(2) pre0(3) pre0(4) _ g s] n by simp
  then show ?thesis using pre0 g s n by simp
qed

section \<open>choose\_bios\<close>

text \<open>
  C5, as stated, fails. In a configuration with \<open>build\<close>, \<open>bios\<close> and \<open>efi\<close> all
  false, \<open>choose_bios\<close> fails with the build-disabled error, not with the
  no-bios-type-configured error: \<open>build\<close> is tested first.
\<close>

theorem choose_bios_build_counterexample:
  "\<not> bios (usb_images (config_bios False False False))
   \<and> \<not> efi (usb_images (config_bios False False False))
   \<and> choose_bios (config_bios False False False) io0 = (Inl BuildDisabled, io0)"
  by (simp add: choose_bios_def config_bios_def config0_def)

text \<open>
  C5, amended. For every configuration in which \<open>usb_images.build\<close> is true and both
  \<open>usb_images.bios\<close> and \<open>usb_images.efi\<close> are false, \<open>choose_bios\<close> fails with the
  no-bios-type-configured error, whatever the profiles and \<open>all_in_one\<close> are, and
  without prompting.
\<close>

theorem choose_bios_none_configured:
  "build (usb_images cfg) \<Longrightarrow> \<not> bios (usb_images cfg) \<Longrightarrow> \<not> efi (usb_images cfg)
   \<Longrightarrow> choose_bios cfg t = (Inl NoBiosTypeConfigured, t)"
  by (simp add: choose_bios_def)

text \<open>C5 at a configuration with \<open>build\<close> true and \<open>bios\<close>, \<open>efi\<close> false.\<close>

theorem choose_bios_none_configured_witness:
  "build (usb_images (config_bios True False False))
   \<and> \<not> bios (usb_images (config_bios True False False))
   \<and> \<not> efi (usb_images (config_bios True False False))
   \<and> choose_bios (config_bios True False False) io0 = (Inl NoBiosTypeConfigured, io0)"
proof -
  have h: "build (usb_images (config_bios True False False))"
    "\<not> bios (usb_images (config_bios True False False))"
    "\<not> efi (usb_images (config_bios True False False))"
    by (simp_all add: config_bios_def config0_def)
  show ?thesis using h choose_bios_none_configured [OF h, of io0] by simp
qed

text \<open>
  C10. Whenever \<open>choose_bios\<close> succeeds, its result is the string \<open>bios\<close> or the
  string \<open>efi\<close>, for every configuration and every input; and whenever \<open>main\<close>
  builds a command without a URL, that command has seven arguments, the sixth is
  \<open>-b\<close> and the seventh is \<open>bios\<close> or \<open>efi\<close>.
\<close>

theorem choose_bios_literal:
  "(fst (choose_bios cfg t) = Inr b \<longrightarrow> b = ''bios'' \<or> b = ''efi'')
   \<and> (\<not> truthy url \<and> fst (select_command w cfg dev url t0) = Inr cmd
        \<longrightarrow> length cmd = 7 \<and> cmd ! 5 = ''-b'' \<and> (cmd ! 6 = ''bios'' \<or> cmd ! 6 = ''efi''))"
proof
  show "fst (choose_bios cfg t) = Inr b \<longrightarrow> b = ''bios'' \<or> b = ''efi''"
    using choose_bios_result by blast
  show "\<not> truthy url \<and> fst (select_command w cfg dev url t0) = Inr cmd
        \<longrightarrow> length cmd = 7 \<and> cmd ! 5 = ''-b'' \<and> (cmd ! 6 = ''bios'' \<or> cmd ! 6 = ''efi'')"
  proof
    assume h: "\<not> truthy url \<and> fst (select_command w cfg dev url t0) = Inr cmd"
    then have "\<not> truthy url" and "fst (select_command w cfg dev url t0) = Inr cmd"
      by simp_all
    then have "\<exists>profile ta bt. fst (choose_bios cfg ta) = Inr bt
                 \<and> generate_command w cfg dev profile bt = Inr cmd"
      by (rule select_command_profile)
    then obtain profile ta bt where
      cb: "fst (choose_bios cfg ta) = Inr bt" and
      gc: "generate_command w cfg dev profile bt = Inr cmd"
      by blast
    from cb have "bt = ''bios'' \<or> bt = ''efi''"
      by (rule choose_bios_result)
    moreover from gc have "length cmd = 7 \<and> cmd ! 5 = ''-b'' \<and> cmd ! 6 = bt"
      by (auto simp: generate_command_def split: if_splits)
    ultimately show "length cmd = 7 \<and> cmd ! 5 = ''-b'' \<and> (cmd ! 6 = ''bios'' \<or> cmd ! 6 = ''efi'')"
      by auto
  qed
qed

text \<open>
  C10 at a concrete run: both bios types are enabled, the operator chooses profile
  1 and types \<open>efi\<close>.
\<close>

theorem choose_bios_literal_witness:
  "fst (choose_bios config0 \<lparr>stdin = [''efi''], stdout = []\<rparr>) = Inr ''efi''
   \<and> \<not> truthy None
   \<and> fst (select_command world0 config0 (Path ''/dev/sdc'') None \<lparr>stdin = [''1'', ''efi''], stdout = []\<rparr>)
       = Inr [''./flashusb.sh'', ''-d'', ''/dev/sdc'', ''-i'', ''..//tmp/out/edge-efi.img'',
              ''-b'', ''efi'']
   \<and> [''./flashusb.sh'', ''-d'', ''/dev/sdc'', ''-i'', ''..//tmp/out/edge-efi.img'',
       ''-b'', ''efi''] ! 6 = ''efi''"
proof -
  have h1: "fst (choose_bios config0 \<lparr>stdin = [''efi''], stdout = []\<rparr>) = Inr ''efi''"
    by code_simp
  have h2: "\<not> truthy None"
    by (simp add: truthy_def)
  have h3: "fst (select_command world0 config0 (Path ''/dev/sdc'') None
                   \<lparr>stdin = [''1'', ''efi''], stdout = []\<rparr>)
       = Inr [''./flashusb.sh'', ''-d'', ''/dev/sdc'', ''-i'', ''..//tmp/out/edge-efi.img'',
              ''-b'', ''efi'']"
    by code_simp
  show ?thesis
    using h1 h2 h3
      choose_bios_literal [of config0 "\<lparr>stdin = [''efi''], stdout = []\<rparr>" "''efi''" None
        world0 "Path ''/dev/sdc''" "\<lparr>stdin = [''1'', ''efi''], stdout = []\<rparr>"
        "[''./flashusb.sh'', ''-d'', ''/dev/sdc'', ''-i'', ''..//tmp/out/edge-efi.img'',
          ''-b'', ''efi'']"]
    by simp
qed

section \<open>choose\_profile\<close>

text \<open>
  C6. When \<open>usb_images.all_in_one\<close> is true, \<open>choose_profile\<close> returns the literal
  profile \<open>all\<close>, whatever the configured profiles are, and leaves the terminal as
  it was: nothing is written and no line of input is read.
\<close>

theorem choose_profile_all_in_one:
  "all_in_one (usb_images cfg) \<Longrightarrow> choose_profile w cfg t = (Inr ''all'', t)"
  by (simp add: choose_profile_def)

text \<open>C6 at a configuration with two profiles and \<open>all_in_one\<close> true.\<close>

theorem choose_profile_all_in_one_witness:
  "all_in_one (usb_images (config0\<lparr>usb_images := (usb_images config0)\<lparr>all_in_one := True\<rparr>\<rparr>))
   \<and> choose_profile world0 (config0\<lparr>usb_images := (usb_images config0)\<lparr>all_in_one := True\<rparr>\<rparr>) io0
       = (Inr ''all'', io0)"
  using choose_profile_all_in_one
    [of "config0\<lparr>usb_images := (usb_images config0)\<lparr>all_in_one := True\<rparr>\<rparr>" world0 io0]
  by simp

text \<open>
  C7. When \<open>all_in_one\<close> is false and the operator types a line, \<open>choose_profile\<close>
  fails with the invalid-profile-choice error exactly when the line is not a number
  (\<open>int\<close> raises \<open>ValueError\<close>) or is a number outside \<open>[1, N]\<close>, \<open>N\<close> the number of
  configured profiles; and on a number \<open>k\<close> in \<open>[1, N]\<close> it returns the \<open>k\<close>-th
  profile name, counting from 1.
\<close>

theorem choose_profile_choice:
  assumes "\<not> all_in_one (usb_images cfg)" and "stdin t = line # rest"
  shows "(fst (choose_profile w cfg t) = Inl InvalidProfileChoice
            \<longleftrightarrow> (py_int w line = None
                 \<or> (\<exists>k. py_int w line = Some k \<and> (k < 1 \<or> int (length (profiles cfg)) < k))))
         \<and> (\<forall>k. py_int w line = Some k \<and> 1 \<le> k \<and> k \<le> int (length (profiles cfg))
                \<longrightarrow> fst (choose_profile w cfg t) = Inr (profiles cfg ! nat (k - 1)))"
proof -
  let ?t1 = "print_menu 0 (profiles cfg) t"
  have "stdin ?t1 = line # rest"
    using assms(2) by (simp add: stdin_print_menu)
  then obtain t2 where inp: "input ''Please choose which profile to flash: '' ?t1 = (Inr line, t2)"
    by (simp add: input_def)
  show ?thesis
    using assms(1) inp
    by (cases "py_int w line") (auto simp: choose_profile_def Let_def)
qed

text \<open>C7 at a concrete run: two profiles, the operator types \<open>2\<close>.\<close>

theorem choose_profile_choice_witness:
  "\<not> all_in_one (usb_images config0)
   \<and> stdin io0 = ''2'' # [''efi'']
   \<and> py_int world0 ''2'' = Some 2
   \<and> (1::int) \<le> 2 \<and> 2 \<le> int (length (profiles config0))
   \<and> fst (choose_profile world0 config0 io0) = Inr ''core''"
proof -
  have h1: "\<not> all_in_one (usb_images config0)" by (simp add: config0_def)
  have h2: "stdin io0 = ''2'' # [''efi'']" by (simp add: io0_def)
  have h3: "py_int world0 ''2'' = Some 2" by (simp add: world0_def digits_int_def digit_val_def)
  have h4: "2 \<le> int (length (profiles config0))" by (simp add: config0_def)
  have h5: "profiles config0 ! nat (2 - 1) = ''core''" by (simp add: config0_def)
  from choose_profile_choice [OF h1 h2, of world0] h3 h4 h5
  have "fst (choose_profile world0 config0 io0) = Inr ''core''" by simp
  then show ?thesis using h1 h2 h3 h4 by simp
qed

section \<open>run\_flash\_usb\_script\<close>

text \<open>
  C8. For every command and every schedule of the child, if the working directory
  \<open>esp.dest_dir\<close> does not exist then \<open>run_flash_usb_script\<close> returns the
  workdir-not-found error, and its list of effects is empty: no child has been
  started and no signal has been sent.
\<close>

theorem run_workdir_missing:
  "\<not> exists w (Path (dest_dir (esp cfg))) \<Longrightarrow>
   run_flash_usb_script w cfg cmd sched = Some (Inl WorkdirNotFound, [])"
  by (simp add: run_flash_usb_script_def)

text \<open>C8 at a configuration whose working directory is missing.\<close>

theorem run_workdir_missing_witness:
  "\<not> exists world0 (Path (dest_dir (esp (config0\<lparr>esp := \<lparr>dest_dir = ''nowhere''\<rparr>\<rparr>))))
   \<and> run_flash_usb_script world0 (config0\<lparr>esp := \<lparr>dest_dir = ''nowhere''\<rparr>\<rparr>)
        [''./flashusb.sh'', ''-d'', ''/dev/sdc'', ''-u'', ''http://example.com/edge-efi.img'']
        [StillRunning, Exit 0]
      = Some (Inl WorkdirNotFound, [])"
proof -
  have h: "\<not> exists world0 (Path (dest_dir (esp (config0\<lparr>esp := \<lparr>dest_dir = ''nowhere''\<rparr>\<rparr>))))"
    by (simp add: exists_def world0_def Path_def splitroot_def path_str_def)
  show ?thesis using h run_workdir_missing [OF h] by simp
qed

text \<open>
  C9 does not hold of the code. The child is started by
  \<open>Popen(cmd, shell=True, cwd=workdir)\<close>, without a session or a process group of
  its own, so it is in the process group of the script. When \<open>KeyboardInterrupt\<close> is
  raised in the polling loop, the handler does send \<open>SIGTERM\<close> with \<open>killpg\<close> to the
  whole group of the child, and the child-execution-failed error is not reported; but
  that group holds the script too, which is ended by the signal before it raises
  the interrupted-by-user error. Here the script is in group 4200, the child is
  process 4242 of the same group, and the interrupt arrives at the third poll.
\<close>

theorem run_interrupted_own_group:
  "exists world0 (Path (dest_dir (esp config0)))
   \<and> spawn world0 ''./flashusb.sh -d /dev/sdc'' ''esp'' = Some 4242
   \<and> getpgid world0 4242 = getpgrp world0
   \<and> run_flash_usb_script world0 config0 [''./flashusb.sh'', ''-d'', ''/dev/sdc'']
        [StillRunning, StillRunning, Sigint]
      = Some (Inl KilledBySigterm,
              [Popen ''./flashusb.sh -d /dev/sdc'' ''esp'', Killpg 4200 SIGTERM])"
proof (intro conjI)
  show "exists world0 (Path (dest_dir (esp config0)))"
    by code_simp
  show "spawn world0 ''./flashusb.sh -d /dev/sdc'' ''esp'' = Some 4242"
    by (simp add: world0_def)
  show "getpgid world0 4242 = getpgrp world0"
    by (simp add: world0_def)
  show "run_flash_usb_script world0 config0 [''./flashusb.sh'', ''-d'', ''/dev/sdc'']
          [StillRunning, StillRunning, Sigint]
        = Some (Inl KilledBySigterm,
                [Popen ''./flashusb.sh -d /dev/sdc'' ''esp'', Killpg 4200 SIGTERM])"
    by code_simp
qed

end
